theory Spec2Isabelle
  imports Main
begin

section \<open>Data model\<close>

text \<open>
  The client of \<^verbatim>\<open>src/agiloft/client.py\<close> is a Python object whose methods are
  coroutines that talk to a server and read the wall clock. The embedding passes the
  object and its environment explicitly: every method takes the pair of the client and
  the world and returns its result (an exception as \<open>Inl\<close>) with the updated pair.

  Times are instants counted in microseconds, the resolution of Python's
  \<^verbatim>\<open>datetime\<close>, from \<^verbatim>\<open>datetime.min\<close>. Computing an expiry fails as it does
  in Python when the lifetime is not a number or the result leaves the range of
  \<^verbatim>\<open>datetime\<close>.
\<close>

type_synonym time = int

text \<open>
  The keys of a token response that the client reads, at the types the client declares
  for the attributes that receive them: \<^verbatim>\<open>access_token\<close>, \<^verbatim>\<open>refresh_token\<close>
  (\<^verbatim>\<open>Optional[str]\<close>) and \<^verbatim>\<open>expires_in\<close>, which is a whole number of seconds
  or a value that is no number (\<^verbatim>\<open>null\<close>, a string). \<open>None\<close> is what
  \<^verbatim>\<open>dict.get\<close> returns for a key that is absent.
\<close>

datatype number = Number int | NotANumber

record token_fields =
  tf_access_token :: "string option"
  tf_refresh_token :: "string option"
  tf_expires_in :: "number option"

text \<open>
  A decoded JSON object, seen through the keys the client reads: the legacy login
  envelope \<^verbatim>\<open>{success, message, result: {...}}\<close> and the OAuth2 envelope
  \<^verbatim>\<open>{access_token, expires_in, refresh_token}\<close> at top level. \<open>NonObject\<close> is any
  decoded value that is not a dictionary, \<^verbatim>\<open>None\<close> included.
\<close>

record envelope =
  env_success :: "bool option"
  env_message :: "string option"
  env_result :: "token_fields option"
  env_tokens :: token_fields

datatype json = NonObject | Object envelope

definition no_tokens :: token_fields where
  "no_tokens = \<lparr>tf_access_token = None, tf_refresh_token = None, tf_expires_in = None\<rparr>"

definition empty_dict :: json where
  "empty_dict = Object \<lparr>env_success = None, env_message = None, env_result = None,
     env_tokens = no_tokens\<rparr>"

text \<open>
  An HTTP response as the client observes it: the status, the raw text, the
  \<^verbatim>\<open>Content-Type\<close> header (\<open>''''\<close> when absent), whether aiohttp's
  \<^verbatim>\<open>response.json()\<close> accepts that content type, and the value the text decodes to
  (\<open>None\<close> when the text is not JSON).
\<close>

record response =
  status :: int
  response_text :: string
  content_type :: string
  json_ctype :: bool
  decoded :: "json option"

text \<open>
  A request that does not produce a response raises: an \<^verbatim>\<open>aiohttp.ClientError\<close>
  (connection refused, DNS) or another exception (\<^verbatim>\<open>asyncio.TimeoutError\<close>).
\<close>

datatype transport_failure = ClientFailure | OtherFailure

datatype reply = Failed transport_failure | Replied response

record exchange =
  reply :: reply
  elapsed :: int

datatype grant =
    ClientCredentialsGrant
  | RefreshTokenGrant string
  | AuthorizationCodeGrant string

text \<open>
  What the client sends, reduced to what identifies the call: the login post with its
  URL, a form post to a token endpoint with its URL and grant (the refresh token or the
  authorization code it carries), and a resource call with method, URL and bearer token.
\<close>

datatype request =
    LoginPost string
  | TokenPost string grant
  | ApiCall string string string

datatype event =
    Sent request
  | ListenerStarted
  | BrowserOpened string
  | ListenerStopped

text \<open>
  The world: the clock that \<^verbatim>\<open>datetime.now()\<close> reads, the exchanges the server will
  answer with, in order, and the trace of what the client did so far.
\<close>

record world =
  clock :: time
  script :: "exchange list"
  trace :: "event list"

text \<open>
  The exceptions. Each raise site of the client is one constructor of \<open>auth_error\<close>,
  carrying the values its message is built from.

  Modelled from the spec: the module \<^verbatim>\<open>exceptions.py\<close> that declares
  \<^verbatim>\<open>AgiloftAuthError\<close> and \<^verbatim>\<open>AgiloftAPIError\<close> is not part of the sources. Following
  section 7 of the specification they are two distinct kinds of error, neither of them an
  \<^verbatim>\<open>aiohttp.ClientError\<close>, and an API error carries the status code and the raw
  response body when it has them.
\<close>

datatype auth_error =
    NoRefreshToken
  | ManualAuthenticationRequired
  | LoginStatus int string
  | LoginRejected "string option"
  | OAuth2Status int string
  | OAuth2NoAccessToken
  | OAuth2Failed
  | ExchangeStatus int string
  | ExchangeNotJson string string
  | ExchangeNoAccessToken
  | ExchangeFailed
  | RefreshStatus int string
  | RefreshNotJson string string
  | RefreshNoAccessToken
  | RefreshFailed
  | NoAccessToken
  | AuthorizationTimeout
  | StateMismatch

datatype api_reason = RequestFailed | RequestFailedAfterReauth | HttpClientError

datatype error =
    AuthError auth_error
  | ApiError api_reason "int option" "string option"
  | ClientError
  | OtherException

text \<open>
  The client object: the configuration values its methods read, and the token state.
\<close>

record client =
  base_url :: string
  auth_method :: string
  oauth2_token_endpoint :: "string option"
  access_token :: "string option"
  refresh_token :: "string option"
  token_expires_at :: "time option"
  api_access_point :: "string option"

type_synonym 'a outcome = "(error + 'a) \<times> client \<times> world"

section \<open>Python primitives\<close>

text \<open>Truth value of an \<^verbatim>\<open>Optional[str]\<close>: \<^verbatim>\<open>None\<close> and the empty string are false.\<close>

definition truthy :: "string option \<Rightarrow> bool" where
  "truthy v = (case v of None \<Rightarrow> False | Some s \<Rightarrow> s \<noteq> [])"

definition starts_with :: "string \<Rightarrow> string \<Rightarrow> bool" where
  "starts_with s p = (take (length p) s = p)"

text \<open>\<^verbatim>\<open>s.split(sep)[0]\<close>: the text before the first occurrence of \<open>sep\<close>, all of \<open>s\<close>
  when there is none.\<close>

fun split_first :: "string \<Rightarrow> string \<Rightarrow> string" where
  "split_first sep [] = []"
| "split_first sep (x # xs) =
     (if starts_with (x # xs) sep then [] else x # split_first sep xs)"

text \<open>\<^verbatim>\<open>sub in s\<close> for strings.\<close>

fun contains :: "string \<Rightarrow> string \<Rightarrow> bool" where
  "contains [] sub = (sub = [])"
| "contains (x # xs) sub = (starts_with (x # xs) sub \<or> contains xs sub)"

text \<open>\<^verbatim>\<open>timedelta(seconds=n)\<close> in microseconds.\<close>

definition seconds :: "int \<Rightarrow> int" where
  "seconds n = n * 1000000"

section \<open>The network\<close>

text \<open>
  Sending a request records it in the trace and consumes the next scripted exchange,
  whose duration the clock advances by. A server that has nothing more to say refuses
  the connection.
\<close>

definition send :: "request \<Rightarrow> world \<Rightarrow> reply \<times> world" where
  "send r w =
     (case script w of
        [] \<Rightarrow> (Failed ClientFailure, w\<lparr>trace := trace w @ [Sent r]\<rparr>)
      | x # xs \<Rightarrow>
          (reply x, w\<lparr>clock := clock w + elapsed x, script := xs, trace := trace w @ [Sent r]\<rparr>))"

definition failure_error :: "transport_failure \<Rightarrow> error" where
  "failure_error f = (case f of ClientFailure \<Rightarrow> ClientError | OtherFailure \<Rightarrow> OtherException)"

text \<open>The characters that \<^verbatim>\<open>strip()\<close> removes.\<close>

definition whitespace :: "char list" where
  "whitespace = [CHR '' '', CHR 0x09, CHR 0x0A, CHR 0x0B, CHR 0x0C, CHR 0x0D]"

definition blank :: "string \<Rightarrow> bool" where
  "blank s = (filter (\<lambda>ch. ch \<notin> set whitespace) s = [])"

text \<open>aiohttp's \<^verbatim>\<open>await response.json()\<close>: a \<^verbatim>\<open>ContentTypeError\<close> (a client error)
  when the content type is not JSON, \<^verbatim>\<open>None\<close> for a body that is blank, a decoding
  error when the text is not JSON.\<close>

definition response_json :: "response \<Rightarrow> error + json" where
  "response_json r =
     (if \<not> json_ctype r then Inl ClientError
      else if blank (response_text r) then Inr NonObject
      else case decoded r of None \<Rightarrow> Inl OtherException | Some j \<Rightarrow> Inr j)"

text \<open>
  \<^verbatim>\<open>timedelta(seconds=n)\<close> raises \<^verbatim>\<open>OverflowError\<close> when the number of days
  exceeds 999999999 in magnitude; adding it to a \<^verbatim>\<open>datetime\<close> raises when the result
  is not between \<^verbatim>\<open>datetime.min\<close> and \<^verbatim>\<open>datetime.max\<close>, the last microsecond of
  the year 9999.
\<close>

definition timedelta_seconds :: "int \<Rightarrow> int option" where
  "timedelta_seconds n =
     (if - 999999999 \<le> n div 86400 \<and> n div 86400 \<le> 999999999 then Some (seconds n)
      else None)"

definition datetime_end :: time where
  "datetime_end = seconds (3652059 * 86400)"

definition datetime_plus :: "time \<Rightarrow> int \<Rightarrow> time option" where
  "datetime_plus t d = (if 0 \<le> t + d \<and> t + d < datetime_end then Some (t + d) else None)"

text \<open>
  \<^verbatim>\<open>datetime.now() + timedelta(seconds=data.get('expires_in', 900))\<close>; \<open>None\<close>
  when Python raises \<^verbatim>\<open>TypeError\<close> or \<^verbatim>\<open>OverflowError\<close>.
\<close>

definition expires_after :: "time \<Rightarrow> number option \<Rightarrow> time option" where
  "expires_after now expires_in =
     (case (case expires_in of None \<Rightarrow> Number 900 | Some v \<Rightarrow> v) of
        NotANumber \<Rightarrow> None
      | Number n \<Rightarrow>
          (case timedelta_seconds n of None \<Rightarrow> None | Some d \<Rightarrow> datetime_plus now d))"

section \<open>Token refresh\<close>

definition refresh_token_url :: "client \<Rightarrow> string" where
  "refresh_token_url c =
     (if truthy (oauth2_token_endpoint c) then the (oauth2_token_endpoint c)
      else if truthy (api_access_point c) then the (api_access_point c) @ ''/ewws/otoken''
      else split_first ''/ewws/alrest'' (base_url c) @ ''/ewws/otoken'')"

definition refresh_access_token :: "client \<times> world \<Rightarrow> unit outcome" where
  "refresh_access_token cw =
     (case cw of (c, w) \<Rightarrow>
        if \<not> truthy (refresh_token c) then (Inl (AuthError NoRefreshToken), c, w)
        else
          (case send (TokenPost (refresh_token_url c)
                        (RefreshTokenGrant (the (refresh_token c)))) w of
             (Failed f, w') \<Rightarrow> (Inl (AuthError RefreshFailed), c, w')
           | (Replied r, w') \<Rightarrow>
               if status r \<noteq> 200 then
                 (Inl (AuthError (RefreshStatus (status r) (response_text r))), c, w')
               else if \<not> contains (content_type r) ''application/json'' then
                 (Inl (AuthError (RefreshNotJson (content_type r) (take 500 (response_text r)))), c, w')
               else
                 (case decoded r of
                    None \<Rightarrow> (Inl (AuthError RefreshFailed), c, w')
                  | Some NonObject \<Rightarrow> (Inl (AuthError RefreshFailed), c, w')
                  | Some (Object data) \<Rightarrow>
                      if \<not> truthy (tf_access_token (env_tokens data)) then
                        (Inl (AuthError RefreshNoAccessToken), c, w')
                      else
                        (case expires_after (clock w') (tf_expires_in (env_tokens data)) of
                           None \<Rightarrow>
                             (Inl (AuthError RefreshFailed),
                              c\<lparr>access_token := tf_access_token (env_tokens data)\<rparr>, w')
                         | Some t \<Rightarrow>
                             (Inr (),
                              c\<lparr>access_token := tf_access_token (env_tokens data),
                                token_expires_at := Some t,
                                refresh_token :=
                                  (if truthy (tf_refresh_token (env_tokens data))
                                   then tf_refresh_token (env_tokens data)
                                   else refresh_token c)\<rparr>,
                              w')))))"

section \<open>Authentication\<close>

text \<open>
  \<^verbatim>\<open>_authenticate_legacy\<close>. Its handler re-raises every exception as it is, so a
  transport failure or a body that does not decode leaves the method as such. Both
  tokens are assigned before the expiry is computed, so a failure of that computation
  leaves them stored.
\<close>

definition authenticate_legacy :: "client \<times> world \<Rightarrow> unit outcome" where
  "authenticate_legacy cw =
     (case cw of (c, w) \<Rightarrow>
        (case send (LoginPost (base_url c @ ''/login'')) w of
           (Failed f, w') \<Rightarrow> (Inl (failure_error f), c, w')
         | (Replied r, w') \<Rightarrow>
             if status r \<noteq> 200 then
               (Inl (AuthError (LoginStatus (status r) (response_text r))), c, w')
             else
               (case response_json r of
                  Inl e \<Rightarrow> (Inl e, c, w')
                | Inr NonObject \<Rightarrow> (Inl OtherException, c, w')
                | Inr (Object data) \<Rightarrow>
                    if \<not> (case env_success data of None \<Rightarrow> False | Some b \<Rightarrow> b) then
                      (Inl (AuthError (LoginRejected (env_message data))), c, w')
                    else
                      (let result = (case env_result data of None \<Rightarrow> no_tokens | Some t \<Rightarrow> t);
                           c1 = c\<lparr>access_token := tf_access_token result,
                                  refresh_token := tf_refresh_token result\<rparr>
                       in case expires_after (clock w') (tf_expires_in result) of
                            None \<Rightarrow> (Inl OtherException, c1, w')
                          | Some t \<Rightarrow> (Inr (), c1\<lparr>token_expires_at := Some t\<rparr>, w')))))"

text \<open>
  \<^verbatim>\<open>_authenticate_oauth2_client_credentials\<close>. The access token attribute is
  assigned before it is tested and before the expiry is computed. Every exception other
  than an authentication error is wrapped into one; posting to an endpoint that is
  \<^verbatim>\<open>None\<close> or empty raises before anything is sent.
\<close>

definition authenticate_oauth2_client_credentials :: "client \<times> world \<Rightarrow> unit outcome" where
  "authenticate_oauth2_client_credentials cw =
     (case cw of (c, w) \<Rightarrow>
        if \<not> truthy (oauth2_token_endpoint c) then (Inl (AuthError OAuth2Failed), c, w)
        else
             (case send (TokenPost (the (oauth2_token_endpoint c)) ClientCredentialsGrant) w of
                (Failed f, w') \<Rightarrow> (Inl (AuthError OAuth2Failed), c, w')
              | (Replied r, w') \<Rightarrow>
                  if status r \<noteq> 200 then
                    (Inl (AuthError (OAuth2Status (status r) (response_text r))), c, w')
                  else
                    (case response_json r of
                       Inl e \<Rightarrow> (Inl (AuthError OAuth2Failed), c, w')
                     | Inr NonObject \<Rightarrow> (Inl (AuthError OAuth2Failed), c, w')
                     | Inr (Object data) \<Rightarrow>
                         if \<not> truthy (tf_access_token (env_tokens data)) then
                           (Inl (AuthError OAuth2NoAccessToken),
                            c\<lparr>access_token := tf_access_token (env_tokens data)\<rparr>, w')
                         else
                           (case expires_after (clock w') (tf_expires_in (env_tokens data)) of
                              None \<Rightarrow>
                                (Inl (AuthError OAuth2Failed),
                                 c\<lparr>access_token := tf_access_token (env_tokens data)\<rparr>, w')
                            | Some t \<Rightarrow>
                                (Inr (),
                                 c\<lparr>access_token := tf_access_token (env_tokens data),
                                   token_expires_at := Some t,
                                   refresh_token := tf_refresh_token (env_tokens data)\<rparr>,
                                 w')))))"

text \<open>\<^verbatim>\<open>_authenticate\<close>: the dispatch on the authentication method.\<close>

definition authenticate :: "client \<times> world \<Rightarrow> unit outcome" where
  "authenticate cw =
     (case cw of (c, w) \<Rightarrow>
        if auth_method c = ''oauth2_client_credentials'' then
          authenticate_oauth2_client_credentials (c, w)
        else if auth_method c = ''oauth2_authorization_code'' then
          (if truthy (refresh_token c) then
             (case refresh_access_token (c, w) of
                (Inr u, c', w') \<Rightarrow> (Inr (), c', w')
              | (Inl (AuthError e), c', w') \<Rightarrow>
                  (Inl (AuthError ManualAuthenticationRequired), c'\<lparr>refresh_token := None\<rparr>, w')
              | (Inl other, c', w') \<Rightarrow> (Inl other, c', w'))
           else (Inl (AuthError ManualAuthenticationRequired), c, w))
        else authenticate_legacy (c, w))"

text \<open>
  \<^verbatim>\<open>ensure_authenticated\<close>. The test of the source is
  \<^verbatim>\<open>now >= self.token_expires_at - timedelta(minutes=1)\<close>. The lock it holds
  orders concurrent callers and has no effect on one caller.
\<close>

definition needs_renewal :: "client \<Rightarrow> time \<Rightarrow> bool" where
  "needs_renewal c now =
     (access_token c = None \<or>
      (case token_expires_at c of None \<Rightarrow> True | Some t \<Rightarrow> now \<ge> t - seconds 60))"

definition ensure_authenticated :: "client \<times> world \<Rightarrow> unit outcome" where
  "ensure_authenticated cw =
     (case cw of (c, w) \<Rightarrow>
        if needs_renewal c (clock w) then
          (if truthy (refresh_token c) then
             (case refresh_access_token (c, w) of
                (Inr u, c', w') \<Rightarrow> (Inr (), c', w')
              | (Inl (AuthError e), c', w') \<Rightarrow> authenticate (c'\<lparr>refresh_token := None\<rparr>, w')
              | (Inl other, c', w') \<Rightarrow> (Inl other, c', w'))
           else authenticate (c, w))
        else (Inr (), c, w))"

section \<open>Authenticated requests\<close>

definition get_auth_headers :: "client \<Rightarrow> error + string" where
  "get_auth_headers c =
     (if \<not> truthy (access_token c) then Inl (AuthError NoAccessToken)
      else Inr (the (access_token c)))"

definition success_status :: "int \<Rightarrow> bool" where
  "success_status s = (s = 200 \<or> s = 201 \<or> s = 202 \<or> s = 204)"

definition api_url :: "client \<Rightarrow> string \<Rightarrow> string" where
  "api_url c endpoint = base_url c @ ''/'' @ dropWhile (\<lambda>ch. ch = CHR ''/'') endpoint"

text \<open>
  The body of \<^verbatim>\<open>async with self._auth_lock\<close> in the 401 branch of
  \<^verbatim>\<open>_make_request\<close>, as a function of the snapshot taken before the request. The
  snapshot is a parameter of its own, since other coroutines may have replaced the stored
  token while this one was waiting for the response and for the lock.
\<close>

definition handle_unauthorized :: "string option \<Rightarrow> client \<times> world \<Rightarrow> unit outcome" where
  "handle_unauthorized token_before_request cw =
     (case cw of (c, w) \<Rightarrow>
        if access_token c \<noteq> token_before_request then (Inr (), c, w)
        else if truthy (refresh_token c) then
          (case refresh_access_token (c, w) of
             (Inr u, c', w') \<Rightarrow> (Inr (), c', w')
           | (Inl (AuthError e), c', w') \<Rightarrow> authenticate (c'\<lparr>refresh_token := None\<rparr>, w')
           | (Inl other, c', w') \<Rightarrow> (Inl other, c', w'))
        else authenticate (c, w))"

text \<open>The retry after the 401 branch: new headers, the same call once more.\<close>

definition retry_request :: "string \<Rightarrow> string \<Rightarrow> client \<times> world \<Rightarrow> json outcome" where
  "retry_request method url cw =
     (case cw of (c, w) \<Rightarrow>
        (case get_auth_headers c of
           Inl e \<Rightarrow> (Inl e, c, w)
         | Inr bearer \<Rightarrow>
             (case send (ApiCall method url bearer) w of
                (Failed f, w') \<Rightarrow> (Inl (failure_error f), c, w')
              | (Replied r, w') \<Rightarrow>
                  if \<not> success_status (status r) then
                    (Inl (ApiError RequestFailedAfterReauth (Some (status r))
                            (Some (response_text r))), c, w')
                  else if status r = 204 then (Inr empty_dict, c, w')
                  else (response_json r, c, w'))))"

text \<open>The 401 branch as a whole: the locked block, then the retry.\<close>

definition reauthenticate_and_retry ::
  "string \<Rightarrow> string \<Rightarrow> string option \<Rightarrow> client \<times> world \<Rightarrow> json outcome" where
  "reauthenticate_and_retry method url token_before_request cw =
     (case handle_unauthorized token_before_request cw of
        (Inl e, c, w) \<Rightarrow> (Inl e, c, w)
      | (Inr u, c, w) \<Rightarrow> retry_request method url (c, w))"

text \<open>\<^verbatim>\<open>except aiohttp.ClientError\<close> around the request and everything that follows it.\<close>

definition wrap_client_error :: "'a outcome \<Rightarrow> 'a outcome" where
  "wrap_client_error out =
     (case out of
        (Inl ClientError, c, w) \<Rightarrow> (Inl (ApiError HttpClientError None None), c, w)
      | _ \<Rightarrow> out)"

text \<open>
  \<^verbatim>\<open>_make_request\<close>. The keyword arguments (query parameters, body, caller's
  headers) travel with the request and decide nothing here; they are left out.
\<close>

definition make_request :: "string \<Rightarrow> string \<Rightarrow> client \<times> world \<Rightarrow> json outcome" where
  "make_request method endpoint cw =
     (case ensure_authenticated cw of
        (Inl e, c, w) \<Rightarrow> (Inl e, c, w)
      | (Inr u, c, w) \<Rightarrow>
          (case get_auth_headers c of
             Inl e \<Rightarrow> (Inl e, c, w)
           | Inr bearer \<Rightarrow>
               (let url = api_url c endpoint;
                    token_before_request = access_token c
                in wrap_client_error
                  (case send (ApiCall method url bearer) w of
                     (Failed f, w') \<Rightarrow> (Inl (failure_error f), c, w')
                   | (Replied r, w') \<Rightarrow>
                       if status r = 401 then
                         reauthenticate_and_retry method url token_before_request (c, w')
                       else if \<not> success_status (status r) then
                         (Inl (ApiError RequestFailed (Some (status r))
                                 (Some (response_text r))), c, w')
                       else if status r = 204 then (Inr empty_dict, c, w')
                       else (response_json r, c, w')))))"

text \<open>\<^verbatim>\<open>logout\<close>: every exception of the request is swallowed.\<close>

definition logout :: "client \<times> world \<Rightarrow> client \<times> world" where
  "logout cw =
     (case cw of (c, w) \<Rightarrow>
        if truthy (access_token c) then
          (case make_request ''POST'' ''/logout'' (c, w) of
             (res, c', w') \<Rightarrow>
               (c'\<lparr>access_token := None, refresh_token := None,
                   token_expires_at := None, api_access_point := None\<rparr>, w'))
        else (c, w))"

section \<open>The interactive authorization-code flow\<close>

text \<open>
  \<^verbatim>\<open>_exchange_code_for_token\<close>. As in the refresh, the access token is assigned
  before the expiry is computed, and a failure of that computation is wrapped into an
  authentication error.
\<close>

definition exchange_token_url :: "client \<Rightarrow> string option \<Rightarrow> string" where
  "exchange_token_url c hint =
     (if truthy hint then the hint @ ''/ewws/otoken''
      else split_first ''/ewws/alrest'' (base_url c) @ ''/ewws/otoken'')"

definition exchange_code_for_token ::
  "string \<Rightarrow> string option \<Rightarrow> client \<times> world \<Rightarrow> unit outcome" where
  "exchange_code_for_token auth_code hint cw =
     (case cw of (c0, w) \<Rightarrow>
        (let c = (if truthy hint then c0\<lparr>api_access_point := hint\<rparr> else c0)
         in case send (TokenPost (exchange_token_url c hint)
                         (AuthorizationCodeGrant auth_code)) w of
              (Failed f, w') \<Rightarrow> (Inl (AuthError ExchangeFailed), c, w')
            | (Replied r, w') \<Rightarrow>
                if status r \<noteq> 200 then
                  (Inl (AuthError (ExchangeStatus (status r) (response_text r))), c, w')
                else if \<not> contains (content_type r) ''application/json'' then
                  (Inl (AuthError (ExchangeNotJson (content_type r)
                          (take 500 (response_text r)))), c, w')
                else
                  (case decoded r of
                     None \<Rightarrow> (Inl (AuthError ExchangeFailed), c, w')
                   | Some NonObject \<Rightarrow> (Inl (AuthError ExchangeFailed), c, w')
                   | Some (Object data) \<Rightarrow>
                       if \<not> truthy (tf_access_token (env_tokens data)) then
                         (Inl (AuthError ExchangeNoAccessToken),
                          c\<lparr>access_token := tf_access_token (env_tokens data)\<rparr>, w')
                       else
                         (case expires_after (clock w') (tf_expires_in (env_tokens data)) of
                            None \<Rightarrow>
                              (Inl (AuthError ExchangeFailed),
                               c\<lparr>access_token := tf_access_token (env_tokens data)\<rparr>, w')
                          | Some t \<Rightarrow>
                              (Inr (),
                               c\<lparr>access_token := tf_access_token (env_tokens data),
                                 token_expires_at := Some t,
                                 refresh_token := tf_refresh_token (env_tokens data)\<rparr>,
                               w')))))"

text \<open>
  A request to the callback listener, by its query parameters, and the three variables
  that \<^verbatim>\<open>handle_callback\<close> assigns on each request it serves.
\<close>

record callback =
  cb_code :: "string option"
  cb_state :: "string option"
  cb_api_access_point :: "string option"
  cb_error :: "string option"

record received =
  auth_code :: "string option"
  received_state :: "string option"
  access_point_hint :: "string option"

definition nothing_received :: received where
  "nothing_received = \<lparr>auth_code = None, received_state = None, access_point_hint = None\<rparr>"

definition handle_callback :: "received \<Rightarrow> callback \<Rightarrow> received" where
  "handle_callback v cb =
     \<lparr>auth_code = cb_code cb,
      received_state = cb_state cb,
      access_point_hint =
        Some (case cb_api_access_point cb of None \<Rightarrow> [] | Some s \<Rightarrow> s)\<rparr>"

text \<open>
  One run of the browser: the state value that \<^verbatim>\<open>secrets.token_urlsafe\<close> produced,
  the requests the listener serves during each half-second sleep of the waiting loop up
  to the timeout, and those it still serves while it shuts down.
\<close>

record browser =
  nonce :: string
  polls :: "callback list list"
  late :: "callback list"

text \<open>
  \<^verbatim>\<open>while auth_code is None and (time.time() - start_time) < timeout\<close>: the list of
  sleeps ends when the timeout is reached. Each request served overwrites the three
  variables; the listener is taken to bind its port.
\<close>

fun wait_for_callback :: "callback list list \<Rightarrow> received \<times> time \<Rightarrow> received \<times> time" where
  "wait_for_callback [] (v, t) = (v, t)"
| "wait_for_callback (served # rest) (v, t) =
     (if auth_code v \<noteq> None then (v, t)
      else wait_for_callback rest (foldl handle_callback v served, t + 500000))"

definition authenticate_with_browser :: "browser \<Rightarrow> client \<times> world \<Rightarrow> bool outcome" where
  "authenticate_with_browser b cw =
     (case cw of (c, w) \<Rightarrow>
        (let w1 = w\<lparr>trace := trace w @ [ListenerStarted, BrowserOpened (nonce b)]\<rparr>;
             (v1, t) = wait_for_callback (polls b) (nothing_received, clock w1);
             v = foldl handle_callback v1 (late b);
             w2 = w1\<lparr>clock := t, trace := trace w1 @ [ListenerStopped]\<rparr>
         in if auth_code v = None then (Inl (AuthError AuthorizationTimeout), c, w2)
            else if received_state v \<noteq> Some (nonce b) then (Inl (AuthError StateMismatch), c, w2)
            else
              (case exchange_code_for_token (the (auth_code v)) (access_point_hint v) (c, w2) of
                 (Inl e, c', w') \<Rightarrow> (Inl e, c', w')
               | (Inr u, c', w') \<Rightarrow> (Inr True, c', w'))))"

section \<open>Example states\<close>

text \<open>
  A legacy client that holds the tokens \<open>A1\<close> and \<open>R1\<close>, valid for fifteen minutes
  from instant 0, facing a server that refuses every connection.
\<close>

definition example_client :: client where
  "example_client =
     \<lparr>base_url = ''https://example.test/ewws/alrest/demo'',
      auth_method = ''legacy'',
      oauth2_token_endpoint = None,
      access_token = Some ''A1'',
      refresh_token = Some ''R1'',
      token_expires_at = Some (seconds 900),
      api_access_point = None\<rparr>"

definition example_world :: world where
  "example_world = \<lparr>clock = 0, script = [], trace = []\<rparr>"

text \<open>A JSON response with the given status and token envelope.\<close>

definition token_response :: "int \<Rightarrow> token_fields \<Rightarrow> response" where
  "token_response s t =
     \<lparr>status = s, response_text = ''{...}'', content_type = ''application/json'',
      json_ctype = True,
      decoded = Some (Object \<lparr>env_success = None, env_message = None, env_result = None,
                  env_tokens = t\<rparr>)\<rparr>"

definition answers :: "response \<Rightarrow> exchange" where
  "answers r = \<lparr>reply = Replied r, elapsed = 0\<rparr>"

text \<open>
  A server that answers the next request after five seconds with a new access token
  \<open>A2\<close> and a rotated refresh token \<open>R2\<close>.
\<close>

definition rotating_world :: world where
  "rotating_world =
     \<lparr>clock = 0,
      script = [\<lparr>reply = Replied (token_response 200
                   \<lparr>tf_access_token = Some ''A2'', tf_refresh_token = Some ''R2'',
                    tf_expires_in = Some (Number 900)\<rparr>),
                 elapsed = seconds 5\<rparr>],
      trace = []\<rparr>"

text \<open>
  A server that rejects the bearer token before and after a refresh that succeeds
  without rotation.
\<close>

definition rejecting_world :: world where
  "rejecting_world =
     \<lparr>clock = 0,
      script = [answers (token_response 401 no_tokens),
                answers (token_response 200
                   \<lparr>tf_access_token = Some ''A2'', tf_refresh_token = None,
                    tf_expires_in = Some (Number 900)\<rparr>),
                answers (token_response 401 no_tokens)],
      trace = []\<rparr>"

text \<open>A server whose next answer is an internal error.\<close>

definition failing_world :: world where
  "failing_world = \<lparr>clock = 0, script = [answers (token_response 500 no_tokens)], trace = []\<rparr>"

text \<open>
  A legacy server whose login succeeds with a result that carries a refresh token and no
  access token.
\<close>

definition partial_login_world :: world where
  "partial_login_world =
     \<lparr>clock = 0,
      script = [answers
        \<lparr>status = 200, response_text = ''{...}'', content_type = ''application/json'',
         json_ctype = True,
         decoded = Some (Object \<lparr>env_success = Some True, env_message = None,
           env_result = Some \<lparr>tf_access_token = None, tf_refresh_token = Some ''R1'',
                              tf_expires_in = None\<rparr>,
           env_tokens = no_tokens\<rparr>)\<rparr>],
      trace = []\<rparr>"

text \<open>
  A browser run in which, during the second sleep, the listener receives a code with a
  state that is not the one generated.
\<close>

definition forged_browser :: browser where
  "forged_browser =
     \<lparr>nonce = ''N1'',
      polls = [[], [\<lparr>cb_code = Some ''code1'', cb_state = Some ''N0'',
                     cb_api_access_point = None, cb_error = None\<rparr>]],
      late = []\<rparr>"

section \<open>What each call leaves in the trace\<close>

lemmas outcome_splits =
  if_splits prod.splits reply.splits option.splits json.splits sum.splits error.splits

lemma send_trace: "send r w = (rep, w') \<Longrightarrow> trace w' = trace w @ [Sent r]"
  by (auto simp: send_def split: list.splits)

lemma send_script:
  "send r w = (rep, w') \<Longrightarrow>
     (script w = [] \<and> rep = Failed ClientFailure \<and> script w' = [] \<and> clock w' = clock w) \<or>
     (\<exists>x rest. script w = x # rest \<and> rep = reply x \<and> script w' = rest \<and>
        clock w' = clock w + elapsed x)"
  by (auto simp: send_def split: list.splits)


lemma refresh_trace:
  "truthy (refresh_token c) \<Longrightarrow> refresh_access_token (c, w) = (res, c', w') \<Longrightarrow>
     trace w' = trace w @
       [Sent (TokenPost (refresh_token_url c) (RefreshTokenGrant (the (refresh_token c))))]"
  by (auto simp: refresh_access_token_def dest: send_trace split: outcome_splits)






section \<open>The 401 handler and the snapshot\<close>

text \<open>
  Claim C1. When a 401 has been received and the stored access token differs from the
  snapshot taken before the request, the locked block of the 401 branch returns at once:
  the client (refresh token and token state included) and the world (no refresh or
  authentication request, nothing consumed from the server) are unchanged, and the 401
  branch as a whole is the retry step on that unchanged state. A refresh or
  re-authentication is therefore attempted only when the snapshot still matches.
\<close>

theorem unauthorized_snapshot_differs:
  "access_token c \<noteq> token_before_request \<Longrightarrow>
     handle_unauthorized token_before_request (c, w) = (Inr (), c, w) \<and>
     reauthenticate_and_retry method url token_before_request (c, w) =
       retry_request method url (c, w)"
  by (simp add: handle_unauthorized_def reauthenticate_and_retry_def)

text \<open>The client holds \<open>A1\<close> while the request was sent with \<open>A0\<close>.\<close>

theorem unauthorized_snapshot_differs_witness:
  "access_token example_client \<noteq> Some ''A0'' \<and>
   handle_unauthorized (Some ''A0'') (example_client, example_world) =
     (Inr (), example_client, example_world) \<and>
   reauthenticate_and_retry ''GET'' ''u'' (Some ''A0'') (example_client, example_world) =
     retry_request ''GET'' ''u'' (example_client, example_world)"
proof -
  have differs: "access_token example_client \<noteq> Some ''A0''"
    by (simp add: example_client_def)
  from unauthorized_snapshot_differs [OF differs] differs show ?thesis
    by blast
qed

section \<open>The safety margin\<close>




section \<open>Discarding a refresh token that failed\<close>

lemma truthy_None [simp]: "\<not> truthy None"
  by (simp add: truthy_def)





lemmas run_defs =
  ensure_authenticated_def needs_renewal_def truthy_def refresh_access_token_def
  refresh_token_url_def send_def authenticate_def authenticate_legacy_def
  authenticate_oauth2_client_credentials_def failure_error_def seconds_def
  starts_with_def expires_after_def timedelta_seconds_def datetime_plus_def
  datetime_end_def blank_def whitespace_def response_json_def handle_unauthorized_def
  example_client_def example_world_def token_response_def answers_def


text \<open>
  The fallback itself can fail after it has stored what the server sent: a login whose
  result carries the refresh token \<open>R3\<close> and a lifetime that leads past the year 9999
  raises with \<open>R3\<close> stored.
\<close>

lemma legacy_overflow_keeps_tokens:
  "authenticate
     (example_client\<lparr>refresh_token := None\<rparr>,
      \<lparr>clock = 0,
       script = [answers
         \<lparr>status = 200, response_text = ''{...}'', content_type = ''application/json'',
          json_ctype = True,
          decoded = Some (Object \<lparr>env_success = Some True, env_message = None,
            env_result = Some \<lparr>tf_access_token = Some ''A3'', tf_refresh_token = Some ''R3'',
                               tf_expires_in = Some (Number 1000000000000)\<rparr>,
            env_tokens = no_tokens\<rparr>)\<rparr>],
       trace = []\<rparr>) =
     (Inl OtherException,
      example_client\<lparr>access_token := Some ''A3'', refresh_token := Some ''R3''\<rparr>,
      \<lparr>clock = 0, script = [],
       trace = [Sent (LoginPost ''https://example.test/ewws/alrest/demo/login'')]\<rparr>)"
  by (simp add: run_defs Let_def)

text \<open>
  A refresh fails in the same way when the lifetime is no number: the new access token
  is already stored, and the failure is an authentication error.
\<close>

lemma refresh_bad_lifetime:
  "refresh_access_token
     (example_client,
      \<lparr>clock = 0,
       script = [answers (token_response 200
                   \<lparr>tf_access_token = Some ''A2'', tf_refresh_token = None,
                    tf_expires_in = Some NotANumber\<rparr>)],
       trace = []\<rparr>) =
     (Inl (AuthError RefreshFailed), example_client\<lparr>access_token := Some ''A2''\<rparr>,
      \<lparr>clock = 0, script = [],
       trace = [Sent (TokenPost ''https://example.test/ewws/otoken''
                  (RefreshTokenGrant ''R1''))]\<rparr>)"
  by (simp add: run_defs)


section \<open>A successful refresh\<close>

lemma expires_after_value:
  "expires_after now expires_in = Some t \<Longrightarrow>
     \<exists>n. (case expires_in of None \<Rightarrow> n = 900 | Some v \<Rightarrow> v = Number n) \<and>
         t = now + seconds n"
  by (auto simp: expires_after_def timedelta_seconds_def datetime_plus_def
      split: option.splits number.splits if_splits)

text \<open>
  Claim C4. A successful \<^verbatim>\<open>_refresh_access_token\<close> has consumed a response whose
  body is an object; the stored access token is the one of the response, the stored
  expiry is the completion time plus the response's \<^verbatim>\<open>expires_in\<close> (900 seconds when
  absent), the stored refresh token is the response's when the response carries one
  (a non-empty \<^verbatim>\<open>refresh_token\<close>) and the previous one otherwise, and every later
  refresh posts the stored refresh token, hence never a rotated-out one.
\<close>

theorem refresh_success_replaces_tokens:
  assumes "refresh_access_token (c, w) = (Inr u, c', w')"
  shows "\<exists>x rest r data.
           script w = x # rest \<and> reply x = Replied r \<and> decoded r = Some (Object data) \<and>
           access_token c' = tf_access_token (env_tokens data) \<and>
           (\<exists>n. (case tf_expires_in (env_tokens data) of
                   None \<Rightarrow> n = 900 | Some v \<Rightarrow> v = Number n) \<and>
                token_expires_at c' = Some (clock w + elapsed x + seconds n)) \<and>
           (truthy (tf_refresh_token (env_tokens data)) \<longrightarrow>
              refresh_token c' = tf_refresh_token (env_tokens data)) \<and>
           (\<not> truthy (tf_refresh_token (env_tokens data)) \<longrightarrow>
              refresh_token c' = refresh_token c) \<and>
           (\<forall>w2 res2 c2 w2'. refresh_access_token (c', w2) = (res2, c2, w2') \<longrightarrow>
              trace w2' = trace w2 @
                [Sent (TokenPost (refresh_token_url c')
                   (RefreshTokenGrant (the (refresh_token c'))))])"
proof -
  have t: "truthy (refresh_token c)"
    using assms by (auto simp: refresh_access_token_def split: if_splits)
  obtain rep where s: "send (TokenPost (refresh_token_url c)
                        (RefreshTokenGrant (the (refresh_token c)))) w = (rep, w')"
    using assms t by (auto simp: refresh_access_token_def split: outcome_splits)
  from assms t s obtain r data t' where
    rep: "rep = Replied r" and d: "decoded r = Some (Object data)" and
    acc: "truthy (tf_access_token (env_tokens data))" and
    e: "expires_after (clock w') (tf_expires_in (env_tokens data)) = Some t'" and
    c': "c' = c\<lparr>access_token := tf_access_token (env_tokens data),
                token_expires_at := Some t',
                refresh_token :=
                  (if truthy (tf_refresh_token (env_tokens data))
                   then tf_refresh_token (env_tokens data)
                   else refresh_token c)\<rparr>"
    by (auto simp: refresh_access_token_def split: outcome_splits)
  from send_script [OF s] rep obtain x rest where
    x: "script w = x # rest" "reply x = Replied r" "clock w' = clock w + elapsed x"
    by auto
  from expires_after_value [OF e] x(3)
  have expiry: "\<exists>n. (case tf_expires_in (env_tokens data) of
                   None \<Rightarrow> n = 900 | Some v \<Rightarrow> v = Number n) \<and>
                token_expires_at c' = Some (clock w + elapsed x + seconds n)"
    using c' by simp
  have t': "truthy (refresh_token c')"
    using c' t by simp
  have later: "\<forall>w2 res2 c2 w2'. refresh_access_token (c', w2) = (res2, c2, w2') \<longrightarrow>
              trace w2' = trace w2 @
                [Sent (TokenPost (refresh_token_url c')
                   (RefreshTokenGrant (the (refresh_token c'))))]"
    using refresh_trace [OF t'] by blast
  show ?thesis
    using x d c' later expiry by auto
qed

text \<open>
  The server rotates \<open>R1\<close> to \<open>R2\<close>; the next refresh posts \<open>R2\<close>.
\<close>

theorem refresh_success_replaces_tokens_witness:
  "refresh_access_token (example_client, rotating_world) =
     (Inr (),
      example_client\<lparr>access_token := Some ''A2'', token_expires_at := Some (seconds 905),
        refresh_token := Some ''R2''\<rparr>,
      \<lparr>clock = seconds 5, script = [],
       trace = [Sent (TokenPost ''https://example.test/ewws/otoken''
                  (RefreshTokenGrant ''R1''))]\<rparr>) \<and>
   trace (snd (snd (refresh_access_token
     (example_client\<lparr>access_token := Some ''A2'', token_expires_at := Some (seconds 905),
        refresh_token := Some ''R2''\<rparr>, example_world)))) =
     [Sent (TokenPost ''https://example.test/ewws/otoken'' (RefreshTokenGrant ''R2''))]"
proof -
  let ?c' = "example_client\<lparr>access_token := Some ''A2'',
               token_expires_at := Some (seconds 905), refresh_token := Some ''R2''\<rparr>"
  let ?w' = "\<lparr>clock = seconds 5, script = [],
       trace = [Sent (TokenPost ''https://example.test/ewws/otoken''
                  (RefreshTokenGrant ''R1''))]\<rparr>"
  have run: "refresh_access_token (example_client, rotating_world) = (Inr (), ?c', ?w')"
    by (simp add: run_defs rotating_world_def)
  from refresh_success_replaces_tokens [OF run]
  have later: "\<forall>w2 res2 c2 w2'. refresh_access_token (?c', w2) = (res2, c2, w2') \<longrightarrow>
              trace w2' = trace w2 @
                [Sent (TokenPost (refresh_token_url ?c')
                   (RefreshTokenGrant (the (refresh_token ?c'))))]"
    by blast
  obtain res2 c2 w2' where next_run: "refresh_access_token (?c', example_world) = (res2, c2, w2')"
    by (cases "refresh_access_token (?c', example_world)") auto
  with later have "trace w2' = trace example_world @
                [Sent (TokenPost (refresh_token_url ?c')
                   (RefreshTokenGrant (the (refresh_token ?c'))))]"
    by blast
  then have "trace w2' =
     [Sent (TokenPost ''https://example.test/ewws/otoken'' (RefreshTokenGrant ''R2''))]"
    by (simp add: run_defs)
  with run next_run show ?thesis by simp
qed

section \<open>Authorization-code mode without a refresh token\<close>



section \<open>The token endpoint of a refresh\<close>

lemma starts_with_append: "starts_with s p \<Longrightarrow> \<exists>rest. s = p @ rest"
  by (metis starts_with_def append_take_drop_id)

lemma split_first_absent: "\<not> contains s sep \<Longrightarrow> split_first sep s = s"
  by (induction s) auto

lemma split_first_found:
  "contains s sep \<Longrightarrow> sep \<noteq> [] \<Longrightarrow> \<exists>rest. s = split_first sep s @ sep @ rest"
  by (induction s) (auto dest: starts_with_append)

lemma split_first_earliest:
  "s = pre @ sep @ post \<Longrightarrow> length (split_first sep s) \<le> length pre"
proof (induction s arbitrary: pre)
  case Nil
  then show ?case by simp
next
  case (Cons x xs)
  show ?case
  proof (cases "starts_with (x # xs) sep")
    case True
    then show ?thesis by simp
  next
    case False
    with Cons.prems have "pre \<noteq> []"
      by (auto simp: starts_with_def)
    then obtain p ps where p: "pre = p # ps" by (cases pre) auto
    with Cons.prems have "xs = ps @ sep @ post" by simp
    from Cons.IH [OF this] False p show ?thesis by simp
  qed
qed

text \<open>
  Claim C7. The one request of \<^verbatim>\<open>_refresh_access_token\<close> goes to the configured
  token endpoint when one is set; otherwise to the learned \<^verbatim>\<open>api_access_point\<close>
  followed by \<^verbatim>\<open>/ewws/otoken\<close>; otherwise to the base URL cut before its first
  \<^verbatim>\<open>/ewws/alrest\<close> (the whole base URL when the marker does not occur) followed by
  \<^verbatim>\<open>/ewws/otoken\<close>.
\<close>

theorem refresh_endpoint_priority:
  assumes "truthy (refresh_token c)" and "refresh_access_token (c, w) = (res, c', w')"
  shows "\<exists>url. trace w' = trace w @
                  [Sent (TokenPost url (RefreshTokenGrant (the (refresh_token c))))] \<and>
           (truthy (oauth2_token_endpoint c) \<longrightarrow> oauth2_token_endpoint c = Some url) \<and>
           (\<not> truthy (oauth2_token_endpoint c) \<and> truthy (api_access_point c) \<longrightarrow>
              (\<exists>ap. api_access_point c = Some ap \<and> url = ap @ ''/ewws/otoken'')) \<and>
           (\<not> truthy (oauth2_token_endpoint c) \<and> \<not> truthy (api_access_point c) \<longrightarrow>
              url = split_first ''/ewws/alrest'' (base_url c) @ ''/ewws/otoken'' \<and>
              (contains (base_url c) ''/ewws/alrest'' \<longrightarrow>
                 (\<exists>rest. base_url c =
                    split_first ''/ewws/alrest'' (base_url c) @ ''/ewws/alrest'' @ rest)) \<and>
              (\<not> contains (base_url c) ''/ewws/alrest'' \<longrightarrow>
                 split_first ''/ewws/alrest'' (base_url c) = base_url c))"
proof -
  have found: "contains (base_url c) ''/ewws/alrest'' \<longrightarrow>
                 (\<exists>rest. base_url c =
                    split_first ''/ewws/alrest'' (base_url c) @ ''/ewws/alrest'' @ rest)"
    using split_first_found [of "base_url c" "''/ewws/alrest''"] by simp
  have absent: "\<not> contains (base_url c) ''/ewws/alrest'' \<longrightarrow>
                 split_first ''/ewws/alrest'' (base_url c) = base_url c"
    using split_first_absent by blast
  from refresh_trace [OF assms]
  have "trace w' = trace w @
       [Sent (TokenPost (refresh_token_url c) (RefreshTokenGrant (the (refresh_token c))))]" .
  moreover have "truthy (oauth2_token_endpoint c) \<longrightarrow>
                   oauth2_token_endpoint c = Some (refresh_token_url c)"
    by (auto simp: refresh_token_url_def truthy_def split: option.splits)
  moreover have "\<not> truthy (oauth2_token_endpoint c) \<and> truthy (api_access_point c) \<longrightarrow>
              (\<exists>ap. api_access_point c = Some ap \<and> refresh_token_url c = ap @ ''/ewws/otoken'')"
    by (auto simp: refresh_token_url_def truthy_def split: option.splits)
  moreover have "\<not> truthy (oauth2_token_endpoint c) \<and> \<not> truthy (api_access_point c) \<longrightarrow>
              refresh_token_url c = split_first ''/ewws/alrest'' (base_url c) @ ''/ewws/otoken''"
    by (simp add: refresh_token_url_def)
  ultimately show ?thesis using found absent by blast
qed

text \<open>One client for each of the three cases.\<close>

theorem refresh_endpoint_priority_witness:
  "trace (snd (snd (refresh_access_token
      (example_client\<lparr>oauth2_token_endpoint := Some ''https://sso.test/token'',
         api_access_point := Some ''https://learned.test''\<rparr>, example_world)))) =
     [Sent (TokenPost ''https://sso.test/token'' (RefreshTokenGrant ''R1''))] \<and>
   trace (snd (snd (refresh_access_token
      (example_client\<lparr>api_access_point := Some ''https://learned.test''\<rparr>, example_world)))) =
     [Sent (TokenPost ''https://learned.test/ewws/otoken'' (RefreshTokenGrant ''R1''))] \<and>
   trace (snd (snd (refresh_access_token (example_client, example_world)))) =
     [Sent (TokenPost ''https://example.test/ewws/otoken'' (RefreshTokenGrant ''R1''))]"
proof -
  let ?c1 = "example_client\<lparr>oauth2_token_endpoint := Some ''https://sso.test/token'',
         api_access_point := Some ''https://learned.test''\<rparr>"
  let ?c2 = "example_client\<lparr>api_access_point := Some ''https://learned.test''\<rparr>"
  have held: "truthy (refresh_token ?c1)" "truthy (refresh_token ?c2)"
    "truthy (refresh_token example_client)"
    by (simp_all add: truthy_def example_client_def)
  have set1: "truthy (oauth2_token_endpoint ?c1)"
    by (simp add: truthy_def)
  have set2: "\<not> truthy (oauth2_token_endpoint ?c2) \<and> truthy (api_access_point ?c2)"
    by (simp add: truthy_def example_client_def)
  have set3: "\<not> truthy (oauth2_token_endpoint example_client) \<and>
              \<not> truthy (api_access_point example_client)"
    by (simp add: truthy_def example_client_def)
  have first: "trace (snd (snd (refresh_access_token (?c1, example_world)))) =
     [Sent (TokenPost ''https://sso.test/token'' (RefreshTokenGrant ''R1''))]"
    using refresh_endpoint_priority [OF held(1), of example_world
        "fst (refresh_access_token (?c1, example_world))"
        "fst (snd (refresh_access_token (?c1, example_world)))"
        "snd (snd (refresh_access_token (?c1, example_world)))"] set1
    by (auto simp: example_client_def example_world_def)
  have second: "trace (snd (snd (refresh_access_token (?c2, example_world)))) =
     [Sent (TokenPost ''https://learned.test/ewws/otoken'' (RefreshTokenGrant ''R1''))]"
    using refresh_endpoint_priority [OF held(2), of example_world
        "fst (refresh_access_token (?c2, example_world))"
        "fst (snd (refresh_access_token (?c2, example_world)))"
        "snd (snd (refresh_access_token (?c2, example_world)))"] set2
    by (auto simp: example_client_def example_world_def)
  have third: "trace (snd (snd (refresh_access_token (example_client, example_world)))) =
     [Sent (TokenPost ''https://example.test/ewws/otoken'' (RefreshTokenGrant ''R1''))]"
    using refresh_endpoint_priority [OF held(3), of example_world
        "fst (refresh_access_token (example_client, example_world))"
        "fst (snd (refresh_access_token (example_client, example_world)))"
        "snd (snd (refresh_access_token (example_client, example_world)))"] set3
    by (auto simp: example_client_def example_world_def starts_with_def)
  from first second third show ?thesis by blast
qed

section \<open>The final response of a request\<close>

lemmas request_defs =
  make_request_def retry_request_def reauthenticate_and_retry_def wrap_client_error_def
  get_auth_headers_def success_status_def api_url_def no_tokens_def empty_dict_def

text \<open>
  Claim C5. Take a run of \<^verbatim>\<open>_make_request\<close> that got a response to its request. If
  that response is not a 401 it is final; if it is a 401 and the 401 branch went through,
  the response to the one retry is final. A final response with a status outside
  200, 201, 202, 204 raises an API error with that status and the raw body, and the world
  is the one right after that response, so nothing more is sent, also when the retry
  was answered with 401 again. A final 204 returns the empty dictionary, and any other
  success status returns the decoded JSON body.
\<close>

theorem make_request_final_status:
  assumes "ensure_authenticated cw = (Inr u, c, w)"
    and "get_auth_headers c = Inr bearer"
    and "send (ApiCall method (api_url c endpoint) bearer) w = (Replied r, w1)"
  shows "(status r \<noteq> 401 \<longrightarrow>
            (\<not> success_status (status r) \<longrightarrow>
               make_request method endpoint cw =
                 (Inl (ApiError RequestFailed (Some (status r)) (Some (response_text r))),
                  c, w1)) \<and>
            (status r = 204 \<longrightarrow> make_request method endpoint cw = (Inr empty_dict, c, w1)) \<and>
            (success_status (status r) \<and> status r \<noteq> 204 \<longrightarrow>
               (\<forall>j. response_json r = Inr j \<longrightarrow>
                  make_request method endpoint cw = (Inr j, c, w1)))) \<and>
         (status r = 401 \<longrightarrow>
            (\<forall>u2 c2 w2 bearer2 r2 w3.
               handle_unauthorized (access_token c) (c, w1) = (Inr u2, c2, w2) \<and>
               get_auth_headers c2 = Inr bearer2 \<and>
               send (ApiCall method (api_url c endpoint) bearer2) w2 = (Replied r2, w3) \<longrightarrow>
               (\<not> success_status (status r2) \<longrightarrow>
                  make_request method endpoint cw =
                    (Inl (ApiError RequestFailedAfterReauth (Some (status r2))
                            (Some (response_text r2))), c2, w3)) \<and>
               (status r2 = 204 \<longrightarrow>
                  make_request method endpoint cw = (Inr empty_dict, c2, w3)) \<and>
               (success_status (status r2) \<and> status r2 \<noteq> 204 \<longrightarrow>
                  (\<forall>j. response_json r2 = Inr j \<longrightarrow>
                     make_request method endpoint cw = (Inr j, c2, w3)))))"
proof (rule conjI; rule impI)
  assume "status r \<noteq> 401"
  with assms show "(\<not> success_status (status r) \<longrightarrow>
               make_request method endpoint cw =
                 (Inl (ApiError RequestFailed (Some (status r)) (Some (response_text r))),
                  c, w1)) \<and>
            (status r = 204 \<longrightarrow> make_request method endpoint cw = (Inr empty_dict, c, w1)) \<and>
            (success_status (status r) \<and> status r \<noteq> 204 \<longrightarrow>
               (\<forall>j. response_json r = Inr j \<longrightarrow>
                  make_request method endpoint cw = (Inr j, c, w1)))"
    by (simp add: make_request_def wrap_client_error_def success_status_def)
next
  assume unauth: "status r = 401"
  show "\<forall>u2 c2 w2 bearer2 r2 w3.
               handle_unauthorized (access_token c) (c, w1) = (Inr u2, c2, w2) \<and>
               get_auth_headers c2 = Inr bearer2 \<and>
               send (ApiCall method (api_url c endpoint) bearer2) w2 = (Replied r2, w3) \<longrightarrow>
               (\<not> success_status (status r2) \<longrightarrow>
                  make_request method endpoint cw =
                    (Inl (ApiError RequestFailedAfterReauth (Some (status r2))
                            (Some (response_text r2))), c2, w3)) \<and>
               (status r2 = 204 \<longrightarrow>
                  make_request method endpoint cw = (Inr empty_dict, c2, w3)) \<and>
               (success_status (status r2) \<and> status r2 \<noteq> 204 \<longrightarrow>
                  (\<forall>j. response_json r2 = Inr j \<longrightarrow>
                     make_request method endpoint cw = (Inr j, c2, w3)))"
  proof (intro allI impI, elim conjE)
    fix u2 c2 w2 bearer2 r2 w3
    assume h: "handle_unauthorized (access_token c) (c, w1) = (Inr u2, c2, w2)"
      and g: "get_auth_headers c2 = Inr bearer2"
      and s: "send (ApiCall method (api_url c endpoint) bearer2) w2 = (Replied r2, w3)"
    have retry: "make_request method endpoint cw =
        wrap_client_error (retry_request method (api_url c endpoint) (c2, w2))"
      using assms unauth h
      by (simp add: make_request_def reauthenticate_and_retry_def)
    show "(\<not> success_status (status r2) \<longrightarrow>
                  make_request method endpoint cw =
                    (Inl (ApiError RequestFailedAfterReauth (Some (status r2))
                            (Some (response_text r2))), c2, w3)) \<and>
               (status r2 = 204 \<longrightarrow>
                  make_request method endpoint cw = (Inr empty_dict, c2, w3)) \<and>
               (success_status (status r2) \<and> status r2 \<noteq> 204 \<longrightarrow>
                  (\<forall>j. response_json r2 = Inr j \<longrightarrow>
                     make_request method endpoint cw = (Inr j, c2, w3)))"
      using retry g s
      by (simp add: retry_request_def wrap_client_error_def success_status_def)
  qed
qed

text \<open>
  The server answers 401, grants a refresh, and answers 401 to the retry: three requests,
  then the API error.
\<close>

theorem make_request_final_status_witness:
  "make_request ''GET'' ''/contract/1'' (example_client, rejecting_world) =
     (Inl (ApiError RequestFailedAfterReauth (Some 401) (Some ''{...}'')),
      example_client\<lparr>access_token := Some ''A2''\<rparr>,
      \<lparr>clock = 0, script = [],
       trace =
         [Sent (ApiCall ''GET'' ''https://example.test/ewws/alrest/demo/contract/1'' ''A1''),
          Sent (TokenPost ''https://example.test/ewws/otoken'' (RefreshTokenGrant ''R1'')),
          Sent (ApiCall ''GET'' ''https://example.test/ewws/alrest/demo/contract/1'' ''A2'')]\<rparr>)"
proof -
  let ?url = "''https://example.test/ewws/alrest/demo/contract/1''"
  let ?w1 = "\<lparr>clock = 0,
      script = [answers (token_response 200
                   \<lparr>tf_access_token = Some ''A2'', tf_refresh_token = None,
                    tf_expires_in = Some (Number 900)\<rparr>),
                answers (token_response 401 no_tokens)],
      trace = [Sent (ApiCall ''GET'' ?url ''A1'')]\<rparr>"
  let ?w2 = "\<lparr>clock = 0, script = [answers (token_response 401 no_tokens)],
      trace = [Sent (ApiCall ''GET'' ?url ''A1''),
               Sent (TokenPost ''https://example.test/ewws/otoken''
                 (RefreshTokenGrant ''R1''))]\<rparr>"
  let ?w3 = "\<lparr>clock = 0, script = [],
      trace = [Sent (ApiCall ''GET'' ?url ''A1''),
               Sent (TokenPost ''https://example.test/ewws/otoken''
                 (RefreshTokenGrant ''R1'')),
               Sent (ApiCall ''GET'' ?url ''A2'')]\<rparr>"
  let ?c2 = "example_client\<lparr>access_token := Some ''A2''\<rparr>"
  have valid: "ensure_authenticated (example_client, rejecting_world) =
                 (Inr (), example_client, rejecting_world)"
    by (simp add: run_defs rejecting_world_def)
  have bearer: "get_auth_headers example_client = Inr ''A1''"
    by (simp add: run_defs request_defs)
  have url: "api_url example_client ''/contract/1'' = ?url"
    by (simp add: api_url_def example_client_def)
  have first: "send (ApiCall ''GET'' (api_url example_client ''/contract/1'') ''A1'')
                 rejecting_world = (Replied (token_response 401 no_tokens), ?w1)"
    by (simp add: url send_def rejecting_world_def answers_def)
  have unauthorized: "status (token_response 401 no_tokens) = 401"
    by (simp add: token_response_def)
  have renewed: "handle_unauthorized (access_token example_client) (example_client, ?w1) =
                   (Inr (), ?c2, ?w2)"
    by (simp add: run_defs)
  have bearer2: "get_auth_headers ?c2 = Inr ''A2''"
    by (simp add: run_defs request_defs)
  have second: "send (ApiCall ''GET'' (api_url example_client ''/contract/1'') ''A2'') ?w2 =
                  (Replied (token_response 401 no_tokens), ?w3)"
    by (simp add: url send_def answers_def)
  have again: "\<not> success_status (status (token_response 401 no_tokens))"
    by (simp add: token_response_def success_status_def)
  from make_request_final_status [OF valid bearer first] unauthorized renewed bearer2 second again
  have "make_request ''GET'' ''/contract/1'' (example_client, rejecting_world) =
          (Inl (ApiError RequestFailedAfterReauth (Some (status (token_response 401 no_tokens)))
             (Some (response_text (token_response 401 no_tokens)))), ?c2, ?w3)"
    by blast
  then show ?thesis
    by (simp add: token_response_def)
qed

section \<open>The state value of the callback\<close>

lemma handle_callback_last:
  "served \<noteq> [] \<Longrightarrow> foldl handle_callback v served = handle_callback v (last served)"
  by (induction served arbitrary: v) (auto simp: handle_callback_def)

text \<open>
  Claim C8, as amended. When the parameters that the flow holds once the listener has
  stopped, which are those of the last request the listener served, carry a code together
  with a state other than the generated one, \<^verbatim>\<open>authenticate_with_browser\<close> fails with
  the state-mismatch error; the client is unchanged, the last event is the stopping of
  the listener, and no token request has been sent nor any answer of the server consumed.
\<close>

theorem state_mismatch_stops_flow:
  assumes "foldl handle_callback
             (fst (wait_for_callback (polls b) (nothing_received, clock w))) (late b) = v"
    and "auth_code v = Some code"
    and "received_state v \<noteq> Some (nonce b)"
  shows "\<exists>t. authenticate_with_browser b (c, w) =
           (Inl (AuthError StateMismatch), c,
            w\<lparr>clock := t,
              trace := trace w @ [ListenerStarted, BrowserOpened (nonce b), ListenerStopped]\<rparr>)"
  using assms
  by (auto simp: authenticate_with_browser_def Let_def split: prod.splits)

text \<open>The forged callback of the example.\<close>

theorem state_mismatch_stops_flow_witness:
  "fst (authenticate_with_browser forged_browser (example_client, example_world)) =
     Inl (AuthError StateMismatch) \<and>
   fst (snd (authenticate_with_browser forged_browser (example_client, example_world))) =
     example_client \<and>
   trace (snd (snd (authenticate_with_browser forged_browser (example_client, example_world)))) =
     [ListenerStarted, BrowserOpened ''N1'', ListenerStopped]"
proof -
  let ?v = "\<lparr>auth_code = Some ''code1'', received_state = Some ''N0'',
             access_point_hint = Some []\<rparr>"
  have held: "foldl handle_callback
      (fst (wait_for_callback (polls forged_browser) (nothing_received, clock example_world)))
      (late forged_browser) = ?v"
    by (simp add: forged_browser_def nothing_received_def handle_callback_def)
  have code: "auth_code ?v = Some ''code1''" by simp
  have mismatch: "received_state ?v \<noteq> Some (nonce forged_browser)"
    by (simp add: forged_browser_def)
  from state_mismatch_stops_flow [OF held code mismatch, of example_client]
  obtain t where "authenticate_with_browser forged_browser (example_client, example_world) =
           (Inl (AuthError StateMismatch), example_client,
            example_world\<lparr>clock := t,
              trace := trace example_world @
                [ListenerStarted, BrowserOpened (nonce forged_browser), ListenerStopped]\<rparr>)"
    by blast
  then show ?thesis
    by (simp add: forged_browser_def example_world_def)
qed

text \<open>
  Claim C8 as stated fails when a later request overwrites the forged one before the
  flow looks: within one sleep the listener serves a callback with code \<open>code1\<close> and the
  wrong state \<open>N0\<close>, then one with code \<open>code2\<close> and the generated state \<open>N1\<close>. The
  flow returns \<open>True\<close> and has exchanged \<open>code2\<close> for tokens.
\<close>

theorem state_mismatch_stops_flow_counterexample:
  "authenticate_with_browser
     \<lparr>nonce = ''N1'',
      polls = [[\<lparr>cb_code = Some ''code1'', cb_state = Some ''N0'',
                 cb_api_access_point = None, cb_error = None\<rparr>,
                \<lparr>cb_code = Some ''code2'', cb_state = Some ''N1'',
                 cb_api_access_point = None, cb_error = None\<rparr>]],
      late = []\<rparr>
     (example_client, rotating_world) =
     (Inr True,
      example_client\<lparr>access_token := Some ''A2'', refresh_token := Some ''R2'',
        token_expires_at := Some 905500000\<rparr>,
      \<lparr>clock = 5500000, script = [],
       trace = [ListenerStarted, BrowserOpened ''N1'', ListenerStopped,
                Sent (TokenPost ''https://example.test/ewws/otoken''
                  (AuthorizationCodeGrant ''code2''))]\<rparr>)"
  by (simp add: authenticate_with_browser_def exchange_code_for_token_def
      exchange_token_url_def handle_callback_def nothing_received_def Let_def
      rotating_world_def run_defs)

section \<open>Logout\<close>

text \<open>
  Claim C9, as amended. When \<^verbatim>\<open>logout\<close> is called while an access token is held, the
  access token, the refresh token, the expiry and the learned access point are all absent
  afterwards, whatever the request to the server did; when no access token is held,
  \<^verbatim>\<open>logout\<close> does nothing at all.
\<close>

theorem logout_clears_tokens:
  assumes "logout (c, w) = (c', w')"
  shows "(truthy (access_token c) \<longrightarrow>
            access_token c' = None \<and> refresh_token c' = None \<and>
            token_expires_at c' = None \<and> api_access_point c' = None) \<and>
         (\<not> truthy (access_token c) \<longrightarrow> c' = c \<and> w' = w)"
  using assms by (auto simp: logout_def split: prod.splits)

text \<open>Logging out with the tokens of the example, and without an access token.\<close>

theorem logout_clears_tokens_witness:
  "truthy (access_token example_client) \<and>
   access_token (fst (logout (example_client, example_world))) = None \<and>
   refresh_token (fst (logout (example_client, example_world))) = None \<and>
   token_expires_at (fst (logout (example_client, example_world))) = None \<and>
   api_access_point (fst (logout (example_client, example_world))) = None \<and>
   \<not> truthy (access_token (example_client\<lparr>access_token := None\<rparr>)) \<and>
   logout (example_client\<lparr>access_token := None\<rparr>, example_world) =
     (example_client\<lparr>access_token := None\<rparr>, example_world)"
proof -
  have held: "truthy (access_token example_client)"
    by (simp add: truthy_def example_client_def)
  have absent: "\<not> truthy (access_token (example_client\<lparr>access_token := None\<rparr>))"
    by simp
  obtain c' w' where run: "logout (example_client, example_world) = (c', w')"
    by (cases "logout (example_client, example_world)") auto
  obtain c'' w'' where idle: "logout (example_client\<lparr>access_token := None\<rparr>, example_world) =
      (c'', w'')"
    by (cases "logout (example_client\<lparr>access_token := None\<rparr>, example_world)") auto
  from logout_clears_tokens [OF run] held
  have "access_token c' = None \<and> refresh_token c' = None \<and>
        token_expires_at c' = None \<and> api_access_point c' = None"
    by blast
  moreover from logout_clears_tokens [OF idle] absent
  have "c'' = example_client\<lparr>access_token := None\<rparr> \<and> w'' = example_world"
    by blast
  ultimately show ?thesis using run idle held absent by simp
qed

text \<open>
  Claim C9 as stated fails for a client without an access token. A legacy login whose
  result has a refresh token and no access token leaves such a client, and
  \<^verbatim>\<open>logout\<close> then keeps the refresh token and the expiry.
\<close>

theorem logout_clears_tokens_counterexample:
  "ensure_authenticated
     (example_client\<lparr>access_token := None, refresh_token := None, token_expires_at := None\<rparr>,
      partial_login_world) =
     (Inr (),
      example_client\<lparr>access_token := None, refresh_token := Some ''R1'',
        token_expires_at := Some (seconds 900)\<rparr>,
      \<lparr>clock = 0, script = [],
       trace = [Sent (LoginPost ''https://example.test/ewws/alrest/demo/login'')]\<rparr>) \<and>
   logout
     (example_client\<lparr>access_token := None, refresh_token := Some ''R1'',
        token_expires_at := Some (seconds 900)\<rparr>,
      \<lparr>clock = 0, script = [],
       trace = [Sent (LoginPost ''https://example.test/ewws/alrest/demo/login'')]\<rparr>) =
     (example_client\<lparr>access_token := None, refresh_token := Some ''R1'',
        token_expires_at := Some (seconds 900)\<rparr>,
      \<lparr>clock = 0, script = [],
       trace = [Sent (LoginPost ''https://example.test/ewws/alrest/demo/login'')]\<rparr>) \<and>
   refresh_token
     (example_client\<lparr>access_token := None, refresh_token := Some ''R1'',
        token_expires_at := Some (seconds 900)\<rparr>) \<noteq> None"
  by (simp add: run_defs logout_def partial_login_world_def no_tokens_def Let_def)

section \<open>Requests that do not touch the token state\<close>

lemma unexpired_no_renewal:
  "access_token c = Some a \<Longrightarrow> token_expires_at c = Some t \<Longrightarrow> seconds 60 < t - clock w \<Longrightarrow>
     ensure_authenticated (c, w) = (Inr (), c, w)"
  by (simp add: ensure_authenticated_def needs_renewal_def)

text \<open>
  Claim C10. When \<^verbatim>\<open>_make_request\<close> is entered with an access token that has more
  than 60 seconds left and the server does not answer the request with a 401, the client
  after the call is the client before it: access token, refresh token, expiry and access
  point are unchanged, whether the call returned or raised.
\<close>

theorem make_request_frame:
  assumes "access_token c = Some a" and "token_expires_at c = Some t"
    and "seconds 60 < t - clock w"
    and "\<forall>x rest r. script w = x # rest \<longrightarrow> reply x = Replied r \<longrightarrow> status r \<noteq> 401"
    and "make_request method endpoint (c, w) = (res, c', w')"
  shows "c' = c"
proof -
  from assms(1-3) have ok: "ensure_authenticated (c, w) = (Inr (), c, w)"
    by (rule unexpired_no_renewal)
  show ?thesis
  proof (cases "get_auth_headers c")
    case (Inl e)
    with ok assms(5) show ?thesis by (simp add: make_request_def)
  next
    case (Inr bearer)
    obtain rep w1 where s: "send (ApiCall method (api_url c endpoint) bearer) w = (rep, w1)"
      by (cases "send (ApiCall method (api_url c endpoint) bearer) w") auto
    show ?thesis
    proof (cases rep)
      case (Failed f)
      with ok Inr s assms(5) show ?thesis
        by (auto simp: make_request_def wrap_client_error_def failure_error_def
            split: transport_failure.splits)
    next
      case (Replied r)
      with send_script [OF s] assms(4) have "status r \<noteq> 401" by auto
      with ok Inr s Replied assms(5) show ?thesis
        by (auto simp: make_request_def wrap_client_error_def response_json_def
            split: if_splits option.splits)
    qed
  qed
qed

text \<open>The server answers 500.\<close>

theorem make_request_frame_witness:
  "access_token example_client = Some ''A1'' \<and>
   token_expires_at example_client = Some (seconds 900) \<and>
   seconds 60 < seconds 900 - clock failing_world \<and>
   fst (snd (make_request ''GET'' ''/contract/1'' (example_client, failing_world))) =
     example_client"
proof -
  have token: "access_token example_client = Some ''A1''"
    and expiry: "token_expires_at example_client = Some (seconds 900)"
    by (simp_all add: example_client_def)
  have margin: "seconds 60 < seconds 900 - clock failing_world"
    by (simp add: seconds_def failing_world_def)
  have other: "\<forall>x rest r. script failing_world = x # rest \<longrightarrow> reply x = Replied r \<longrightarrow>
                 status r \<noteq> 401"
    by (simp add: failing_world_def answers_def token_response_def)
  obtain res c' w' where
    run: "make_request ''GET'' ''/contract/1'' (example_client, failing_world) = (res, c', w')"
    by (cases "make_request ''GET'' ''/contract/1'' (example_client, failing_world)") auto
  from make_request_frame [OF token expiry margin other run] have "c' = example_client" .
  with run token expiry margin show ?thesis by simp
qed

end
